theory Spec2Isabelle
  imports Complex_Main "HOL-Library.Char_ord" "HOL-Library.List_Lexorder"
    "HOL-Library.Product_Lexorder"
begin

section \<open>The appointment table\<close>

text \<open>
  The dashboard script \<^verbatim>\<open>app.py\<close> reads a CSV of medical appointments into a pandas
  data frame, cleans it once at start-up, derives two summary tables, and serves seven
  chart-building callbacks that all listen to one dropdown.

  A data frame is modelled as the list of its rows, a row as a record with one field
  per column the script reads. Column names that are not Isabelle identifiers are
  spelled with an underscore: \<^verbatim>\<open>No-show\<close> is \<open>No_show\<close>, \<^verbatim>\<open>No-show_flag\<close> is
  \<open>No_show_flag\<close>.

  Reading the CSV and parsing its two timestamp columns (\<^verbatim>\<open>pd.read_csv\<close>,
  \<^verbatim>\<open>pd.to_datetime(...).dt.tz_localize(None)\<close>) is the library's work; the model
  starts from the parsed value, a \<^verbatim>\<open>datetime64[ns]\<close>: the number of nanoseconds since
  1970-01-01T00:00:00, as an integer.
\<close>

type_synonym timestamp = int

record raw_row =
  Gender :: string
  ScheduledDay :: timestamp
  AppointmentDay :: timestamp
  Age :: int
  Scholarship :: int
  Hipertension :: int
  Diabetes :: int
  Alcoholism :: int
  SMS_received :: int
  No_show :: string

text \<open>The cleaned table has the columns of the CSV and the derived ones (lines 23 to 34).
  \<open>Age_Group\<close> is the interval \<open>[lo, hi)\<close> that \<^verbatim>\<open>pd.cut\<close> assigns, \<open>None\<close> where pandas
  stores NaN.\<close>

record row = raw_row +
  WaitingDays :: int
  AppointmentDayOfWeek :: string
  No_show_flag :: int
  SMS_received_label :: string
  Scholarship_label :: string
  Hipertension_label :: string
  Diabetes_label :: string
  Alcoholism_label :: string
  Age_Group :: "(int \<times> int) option"

subsection \<open>Library operations the cleaning uses\<close>

definition ns_per_day :: int where
  "ns_per_day = 86400 * 1000000000"

text \<open>\<^verbatim>\<open>(a - b).dt.days\<close>: the days component of a pandas Timedelta. pandas normalises
  a Timedelta to a (possibly negative) number of days plus a non-negative remainder, so
  the component is the floor of the quotient: \<^verbatim>\<open>Timedelta('-1s').days == -1\<close>.
  HOL's \<open>div\<close> on \<open>int\<close> is that floor division.\<close>

definition dt_days :: "int \<Rightarrow> int" where
  "dt_days delta = delta div ns_per_day"

text \<open>Line 39, the order in which the weekday summary lists the days.\<close>

definition day_order :: "string list" where
  "day_order = [''Monday'', ''Tuesday'', ''Wednesday'', ''Thursday'', ''Friday'',
                ''Saturday'', ''Sunday'']"

text \<open>\<^verbatim>\<open>.dt.day_name()\<close>, the English name of the day of the week: 1970-01-01 was a
  Thursday, index 3 counting from Monday.\<close>

definition day_name :: "timestamp \<Rightarrow> string" where
  "day_name t =
     [''Monday'', ''Tuesday'', ''Wednesday'', ''Thursday'', ''Friday'', ''Saturday'',
      ''Sunday''] ! nat ((t div ns_per_day + 3) mod 7)"

text \<open>\<^verbatim>\<open>astype(str)\<close> on an integer column: Python's \<^verbatim>\<open>str\<close> of an int.\<close>

fun str_nat :: "nat \<Rightarrow> string" where
  "str_nat n = (if n < 10 then [''0123456789'' ! n]
                else str_nat (n div 10) @ [''0123456789'' ! (n mod 10)])"

declare str_nat.simps [simp del]

definition str_int :: "int \<Rightarrow> string" where
  "str_int i = (if i < 0 then ''-'' @ str_nat (nat (- i)) else str_nat (nat i))"

text \<open>\<^verbatim>\<open>pd.cut(x, bins=edges, right=False)\<close>: the first interval \<open>[lo, hi)\<close> of
  consecutive edges that holds \<open>x\<close>; NaN (\<open>None\<close>) when no interval does.\<close>

fun pd_cut :: "int list \<Rightarrow> int \<Rightarrow> (int \<times> int) option" where
  "pd_cut (lo # hi # edges) x =
     (if lo \<le> x \<and> x < hi then Some (lo, hi) else pd_cut (hi # edges) x)"
| "pd_cut _ x = None"

definition age_bins :: "int list" where
  "age_bins = [0, 10, 20, 30, 40, 50, 60, 70, 80, 90, 100]"

subsection \<open>Data cleaning (lines 20 to 34)\<close>

text \<open>The columns a cleaned row gets. Line 25 replaces \<^verbatim>\<open>'No'\<close> by \<^verbatim>\<open>'No'\<close> and \<^verbatim>\<open>'Yes'\<close> by
  \<^verbatim>\<open>'Yes'\<close>, which leaves the column \<^verbatim>\<open>No-show\<close> as it is.\<close>

definition derive :: "raw_row \<Rightarrow> row" where
  "derive r =
     \<lparr> Gender = Gender r,
       ScheduledDay = ScheduledDay r,
       AppointmentDay = AppointmentDay r,
       Age = Age r,
       Scholarship = Scholarship r,
       Hipertension = Hipertension r,
       Diabetes = Diabetes r,
       Alcoholism = Alcoholism r,
       SMS_received = SMS_received r,
       No_show = No_show r,
       WaitingDays = dt_days (AppointmentDay r - ScheduledDay r),
       AppointmentDayOfWeek = day_name (AppointmentDay r),
       No_show_flag = (if No_show r = ''Yes'' then 1 else 0),
       SMS_received_label = str_int (SMS_received r),
       Scholarship_label = str_int (Scholarship r),
       Hipertension_label = str_int (Hipertension r),
       Diabetes_label = str_int (Diabetes r),
       Alcoholism_label = str_int (Alcoholism r),
       Age_Group = pd_cut age_bins (Age r) \<rparr>"

text \<open>Line 20 keeps the rows with \<open>Age \<ge> 0\<close>; the later lines add columns to the rows
  that are left.\<close>

definition clean :: "raw_row list \<Rightarrow> row list" where
  "clean raw = map derive (filter (\<lambda>r. Age r \<ge> 0) raw)"

section \<open>The two summary tables (lines 34 to 41)\<close>

text \<open>pandas computes in \<^verbatim>\<open>float64\<close>; the model computes the same quotients and products
  exactly, in the rationals. A NaN cell is \<open>None\<close>.\<close>

definition mean :: "int list \<Rightarrow> rat option" where
  "mean xs = (if xs = [] then None
              else Some (rat_of_int (sum_list xs) / rat_of_int (int (length xs))))"

text \<open>The categories of the column \<open>Age_Group\<close>, in their order: one interval for each
  pair of consecutive edges.\<close>

fun intervals :: "int list \<Rightarrow> (int \<times> int) list" where
  "intervals (lo # hi # edges) = (lo, hi) # intervals (hi # edges)"
| "intervals _ = []"

text \<open>\<^verbatim>\<open>df.groupby(col, observed=True)[val].mean()\<close> on a categorical column: one group
  for each category that some row has, in the order of the categories; rows whose key is
  NaN are in no group.\<close>

definition groupby_categorical_mean ::
  "'c list \<Rightarrow> ('r \<Rightarrow> 'c option) \<Rightarrow> ('r \<Rightarrow> int) \<Rightarrow> 'r list \<Rightarrow> ('c \<times> rat option) list" where
  "groupby_categorical_mean cats key val rows =
     map (\<lambda>c. (c, mean (map val (filter (\<lambda>r. key r = Some c) rows))))
         (filter (\<lambda>c. Some c \<in> set (map key rows)) cats)"

text \<open>\<^verbatim>\<open>df.groupby(col)[val].mean()\<close> on an ordinary column: one group for each value that
  occurs, in sorted order.\<close>

definition groupby_mean ::
  "('r \<Rightarrow> 'k::linorder) \<Rightarrow> ('r \<Rightarrow> int) \<Rightarrow> 'r list \<Rightarrow> ('k \<times> rat option) list" where
  "groupby_mean key val rows =
     map (\<lambda>k. (k, mean (map val (filter (\<lambda>r. key r = k) rows))))
         (sort (remdups (map key rows)))"

text \<open>\<^verbatim>\<open>df.groupby([c1, c2]).size().reset_index(name="count")\<close>.\<close>

definition groupby_size :: "('r \<Rightarrow> 'k::linorder) \<Rightarrow> 'r list \<Rightarrow> ('k \<times> nat) list" where
  "groupby_size key rows =
     map (\<lambda>k. (k, length (filter (\<lambda>r. key r = k) rows))) (sort (remdups (map key rows)))"

text \<open>\<^verbatim>\<open>series.reindex(labels)\<close>: the series in the order of \<open>labels\<close>, NaN at a label the
  series does not have.\<close>

definition reindex :: "('k \<times> rat option) list \<Rightarrow> 'k list \<Rightarrow> ('k \<times> rat option) list" where
  "reindex s labels =
     map (\<lambda>l. (l, case map_of s l of None \<Rightarrow> None | Some v \<Rightarrow> v)) labels"

text \<open>\<^verbatim>\<open>astype(str)\<close> of an interval closed on the left.\<close>

definition interval_str :: "int \<times> int \<Rightarrow> string" where
  "interval_str c = ''['' @ str_int (fst c) @ '', '' @ str_int (snd c) @ '')''"

record age_rate_row =
  agr_Age_Group :: string
  agr_No_show_flag :: "rat option"
  agr_No_show_Rate :: "rat option"

record day_rate_row =
  dr_AppointmentDayOfWeek :: string
  dr_No_show_flag :: "rat option"
  dr_No_show_Rate :: "rat option"

text \<open>Lines 35 to 37. The third column is \<^verbatim>\<open>No-show Rate (%)\<close>.\<close>

definition age_group_rate_of :: "row list \<Rightarrow> age_rate_row list" where
  "age_group_rate_of rows =
     map (\<lambda>(c, m). \<lparr> agr_Age_Group = interval_str c,
                     agr_No_show_flag = m,
                     agr_No_show_Rate = map_option (\<lambda>v. v * 100) m \<rparr>)
         (groupby_categorical_mean (intervals age_bins) Age_Group No_show_flag rows)"

text \<open>Lines 39 to 41.\<close>

definition day_rate_of :: "row list \<Rightarrow> day_rate_row list" where
  "day_rate_of rows =
     map (\<lambda>(d, m). \<lparr> dr_AppointmentDayOfWeek = d,
                     dr_No_show_flag = m,
                     dr_No_show_Rate = map_option (\<lambda>v. v * 100) m \<rparr>)
         (reindex (groupby_mean AppointmentDayOfWeek No_show_flag rows) day_order)"

section \<open>The summary cards (lines 55 and 56)\<close>

datatype py_error = KeyError | ValueError

text \<open>\<^verbatim>\<open>series.value_counts(normalize=True)\<close>: the share of each value that occurs.
  pandas orders the result by falling count; the cards only look a label up, so the
  model keeps the values in the order \<open>remdups\<close> leaves them.\<close>

definition value_counts_normalize :: "string list \<Rightarrow> (string \<times> rat) list" where
  "value_counts_normalize xs =
     map (\<lambda>v. (v, rat_of_nat (count_list xs v) / rat_of_nat (length xs))) (remdups xs)"

text \<open>\<^verbatim>\<open>series[label]\<close> raises \<^verbatim>\<open>KeyError\<close> at a label the index does not have.\<close>

definition series_getitem :: "(string \<times> rat) list \<Rightarrow> string \<Rightarrow> py_error + rat" where
  "series_getitem s k = (case map_of s k of None \<Rightarrow> Inl KeyError | Some v \<Rightarrow> Inr v)"

text \<open>The format \<^verbatim>\<open>:.1f\<close>: one digit after the point, ties to the even digit, the sign
  of a negative number kept.\<close>

definition round_half_even :: "rat \<Rightarrow> int" where
  "round_half_even q =
     (let f = \<lfloor>q\<rfloor>; d = q - rat_of_int f
      in if d < 1 / 2 then f else if 1 / 2 < d then f + 1
         else if even f then f else f + 1)"

definition format_1f :: "rat \<Rightarrow> string" where
  "format_1f q =
     (let t = round_half_even (\<bar>q\<bar> * 10)
      in (if q < 0 then ''-'' else []) @ str_nat (nat (t div 10)) @ ''.''
         @ str_nat (nat (t mod 10)))"

definition show_rate_card :: "row list \<Rightarrow> py_error + string" where
  "show_rate_card rows =
     (case series_getitem (value_counts_normalize (map No_show rows)) ''Yes'' of
        Inl e \<Rightarrow> Inl e
      | Inr p \<Rightarrow> Inr (format_1f (100 - p * 100) @ ''%''))"

definition no_show_rate_card :: "row list \<Rightarrow> py_error + string" where
  "no_show_rate_card rows =
     (case series_getitem (value_counts_normalize (map No_show rows)) ''Yes'' of
        Inl e \<Rightarrow> Inl e
      | Inr p \<Rightarrow> Inr (format_1f (p * 100) @ ''%''))"

section \<open>Chart specifications\<close>

text \<open>
  A chart specification is the figure a Plotly Express call returns, as far as the call
  determines it: the kind of chart, the table it draws, the columns on its axes, how the
  marks are coloured, the bar mode, the title and the layout. A keyword the script does
  not pass has the default of the library's signature.
\<close>

definition NO_SHOW_COLOR :: string where
  "NO_SHOW_COLOR = ''#FF9500''"

definition SHOW_COLOR :: string where
  "SHOW_COLOR = ''#007AFF''"

text \<open>Line 9: \<^verbatim>\<open>pio.templates.default\<close>, the template of every figure made later.\<close>

definition default_template :: string where
  "default_template = ''plotly_dark''"

datatype dtype = Int64 | Float64 | Object | Datetime64 | Category

datatype frame =
    DF "row list"
  | Counts string "((string \<times> int) \<times> nat) list"
  | AgeRates "age_rate_row list"
  | DayRates "day_rate_row list"

text \<open>The columns of each table the script hands to a chart, with their types. The
  CSV has further columns the script never names; the model leaves them out, so that
  only the names listed here count as columns of the data frame.\<close>

fun columns :: "frame \<Rightarrow> (string \<times> dtype) list" where
  "columns (DF _) =
     [(''Gender'', Object), (''ScheduledDay'', Datetime64), (''AppointmentDay'', Datetime64),
      (''Age'', Int64), (''Scholarship'', Int64), (''Hipertension'', Int64),
      (''Diabetes'', Int64), (''Alcoholism'', Int64), (''SMS_received'', Int64),
      (''No-show'', Object), (''WaitingDays'', Int64), (''AppointmentDayOfWeek'', Object),
      (''No-show_flag'', Int64), (''SMS_received_label'', Object),
      (''Scholarship_label'', Object), (''Hipertension_label'', Object),
      (''Diabetes_label'', Object), (''Alcoholism_label'', Object),
      (''Age_Group'', Category)]"
| "columns (Counts key _) = [(key, Object), (''No-show_flag'', Int64), (''count'', Int64)]"
| "columns (AgeRates _) =
     [(''Age_Group'', Object), (''No-show_flag'', Float64), (''No-show Rate (%)'', Float64)]"
| "columns (DayRates _) =
     [(''AppointmentDayOfWeek'', Object), (''No-show_flag'', Float64),
      (''No-show Rate (%)'', Float64)]"

definition is_numeric :: "dtype \<Rightarrow> bool" where
  "is_numeric t = (t = Int64 \<or> t = Float64)"

datatype chart_kind = Histogram | Pie | Bar | Box

datatype color_key = StrKey string | IntKey int

record axes =
  ax_title_font_color :: string
  ax_title_font_size :: nat
  ax_showgrid :: bool

record figure =
  kind :: chart_kind
  data_frame :: frame
  x_arg :: "string option"
  y_arg :: "string option"
  names_arg :: "string option"
  color_arg :: "string option"
  color_is_continuous :: bool
  nbins :: "nat option"
  barmode :: "string option"
  color_discrete_map :: "(color_key \<times> string) list"
  color_discrete_sequence :: "string list option"
  title :: string
  template :: string
  title_font_color :: "string option"
  title_font_size :: "nat option"
  font_color :: "string option"
  plot_bgcolor :: "string option"
  paper_bgcolor :: "string option"
  xaxes :: "axes option"
  yaxes :: "axes option"

text \<open>Plotly Express raises \<^verbatim>\<open>ValueError\<close> when an argument names a column the table
  does not have.\<close>

definition has_columns :: "frame \<Rightarrow> string list \<Rightarrow> bool" where
  "has_columns d cs = list_all (\<lambda>c. c \<in> set (map fst (columns d))) cs"

text \<open>\<^verbatim>\<open>px.histogram(d, x=, color=, nbins=, barmode=, color_discrete_map=, title=)\<close>.
  The signature's default for \<^verbatim>\<open>barmode\<close> is \<^verbatim>\<open>'relative'\<close> (the series are stacked);
  \<^verbatim>\<open>'overlay'\<close> and \<^verbatim>\<open>'group'\<close> are the other two modes. A histogram has no continuous
  colour: the colour column always splits the marks into groups.\<close>

definition px_histogram ::
  "frame \<Rightarrow> string \<Rightarrow> string \<Rightarrow> nat option \<Rightarrow> string option \<Rightarrow> (color_key \<times> string) list
     \<Rightarrow> string \<Rightarrow> py_error + figure" where
  "px_histogram d xc cc nb bm cdm t =
     (if \<not> has_columns d [xc, cc] then Inl ValueError
      else Inr \<lparr> kind = Histogram, data_frame = d, x_arg = Some xc, y_arg = None,
                 names_arg = None, color_arg = Some cc, color_is_continuous = False,
                 nbins = nb,
                 barmode = Some (case bm of None \<Rightarrow> ''relative'' | Some m \<Rightarrow> m),
                 color_discrete_map = cdm, color_discrete_sequence = None, title = t,
                 template = default_template, title_font_color = None,
                 title_font_size = None, font_color = None, plot_bgcolor = None,
                 paper_bgcolor = None, xaxes = None, yaxes = None \<rparr>)"

text \<open>\<^verbatim>\<open>px.pie(d, names=, color=, color_discrete_map=, title=)\<close>.\<close>

definition px_pie ::
  "frame \<Rightarrow> string \<Rightarrow> string \<Rightarrow> (color_key \<times> string) list \<Rightarrow> string \<Rightarrow> py_error + figure" where
  "px_pie d nc cc cdm t =
     (if \<not> has_columns d [nc, cc] then Inl ValueError
      else Inr \<lparr> kind = Pie, data_frame = d, x_arg = None, y_arg = None,
                 names_arg = Some nc, color_arg = Some cc, color_is_continuous = False,
                 nbins = None, barmode = None,
                 color_discrete_map = cdm, color_discrete_sequence = None, title = t,
                 template = default_template, title_font_color = None,
                 title_font_size = None, font_color = None, plot_bgcolor = None,
                 paper_bgcolor = None, xaxes = None, yaxes = None \<rparr>)"

text \<open>\<^verbatim>\<open>px.bar(d, x=, y=, color=, barmode=, color_discrete_map=,
  color_discrete_sequence=, title=)\<close>. A bar chart can colour its marks along a
  continuous scale, and Plotly Express does so whenever the colour column is numeric:
  then the marks are one series, and neither \<^verbatim>\<open>color_discrete_map\<close> nor
  \<^verbatim>\<open>color_discrete_sequence\<close> is consulted. Only a non-numeric colour column splits
  the marks into groups coloured from the map.\<close>

definition px_bar ::
  "frame \<Rightarrow> string \<Rightarrow> string \<Rightarrow> string option \<Rightarrow> string option \<Rightarrow> (color_key \<times> string) list
     \<Rightarrow> string list option \<Rightarrow> string \<Rightarrow> py_error + figure" where
  "px_bar d xc yc cc bm cdm cds t =
     (if \<not> has_columns d ([xc, yc] @ (case cc of None \<Rightarrow> [] | Some c \<Rightarrow> [c]))
      then Inl ValueError
      else Inr \<lparr> kind = Bar, data_frame = d, x_arg = Some xc, y_arg = Some yc,
                 names_arg = None, color_arg = cc,
                 color_is_continuous =
                   (case cc of None \<Rightarrow> False
                    | Some c \<Rightarrow> (case map_of (columns d) c of None \<Rightarrow> False
                                 | Some ty \<Rightarrow> is_numeric ty)),
                 nbins = None,
                 barmode = Some (case bm of None \<Rightarrow> ''relative'' | Some m \<Rightarrow> m),
                 color_discrete_map = cdm, color_discrete_sequence = cds, title = t,
                 template = default_template, title_font_color = None,
                 title_font_size = None, font_color = None, plot_bgcolor = None,
                 paper_bgcolor = None, xaxes = None, yaxes = None \<rparr>)"

text \<open>\<^verbatim>\<open>px.box(d, x=, y=, color=, color_discrete_map=, title=)\<close>.\<close>

definition px_box ::
  "frame \<Rightarrow> string \<Rightarrow> string \<Rightarrow> string \<Rightarrow> (color_key \<times> string) list \<Rightarrow> string
     \<Rightarrow> py_error + figure" where
  "px_box d xc yc cc cdm t =
     (if \<not> has_columns d [xc, yc, cc] then Inl ValueError
      else Inr \<lparr> kind = Box, data_frame = d, x_arg = Some xc, y_arg = Some yc,
                 names_arg = None, color_arg = Some cc, color_is_continuous = False,
                 nbins = None, barmode = None,
                 color_discrete_map = cdm, color_discrete_sequence = None, title = t,
                 template = default_template, title_font_color = None,
                 title_font_size = None, font_color = None, plot_bgcolor = None,
                 paper_bgcolor = None, xaxes = None, yaxes = None \<rparr>)"

definition update_layout ::
  "string \<Rightarrow> nat \<Rightarrow> string \<Rightarrow> string \<Rightarrow> string \<Rightarrow> figure \<Rightarrow> figure" where
  "update_layout tfc tfs fc plot paper fig =
     fig\<lparr> title_font_color := Some tfc, title_font_size := Some tfs, font_color := Some fc,
          plot_bgcolor := Some plot, paper_bgcolor := Some paper \<rparr>"

definition update_xaxes :: "string \<Rightarrow> nat \<Rightarrow> bool \<Rightarrow> figure \<Rightarrow> figure" where
  "update_xaxes c n g fig =
     fig\<lparr> xaxes := Some \<lparr> ax_title_font_color = c, ax_title_font_size = n, ax_showgrid = g \<rparr> \<rparr>"

definition update_yaxes :: "string \<Rightarrow> nat \<Rightarrow> bool \<Rightarrow> figure \<Rightarrow> figure" where
  "update_yaxes c n g fig =
     fig\<lparr> yaxes := Some \<lparr> ax_title_font_color = c, ax_title_font_size = n, ax_showgrid = g \<rparr> \<rparr>"

text \<open>The colour in which the marks of one value of the colour column are drawn, when
  the discrete map decides it: nothing when the chart has no colour column or colours
  along a continuous scale.\<close>

definition discrete_color :: "figure \<Rightarrow> color_key \<Rightarrow> string option" where
  "discrete_color fig k =
     (if color_arg fig = None \<or> color_is_continuous fig then None
      else map_of (color_discrete_map fig) k)"

section \<open>The callbacks (lines 91 to 160)\<close>

text \<open>The module's global tables: the cleaned data frame and the two summaries, made
  once when the module is loaded.\<close>

record tables =
  df :: "row list"
  age_group_rate :: "age_rate_row list"
  day_rate :: "day_rate_row list"

definition load :: "raw_row list \<Rightarrow> tables" where
  "load raw =
     (let d = clean raw
      in \<lparr> df = d, age_group_rate = age_group_rate_of d, day_rate = day_rate_of d \<rparr>)"

definition update_main_graph :: "tables \<Rightarrow> string \<Rightarrow> py_error + figure" where
  "update_main_graph g feature =
     map_sum id
       (update_yaxes ''white'' 18 True \<circ> update_xaxes ''white'' 18 True
          \<circ> update_layout ''white'' 24 ''white'' ''#2c3e50'' ''#1E1E1E'')
       (if feature \<in> set [''Age'', ''WaitingDays'']
        then px_histogram (DF (df g)) feature ''No-show'' (Some 50) None
               [(StrKey ''Yes'', NO_SHOW_COLOR), (StrKey ''No'', SHOW_COLOR)]
               (''Distribution of '' @ feature @ '' by Attendance'')
        else px_histogram (DF (df g)) feature ''No-show'' None (Some ''group'')
               [(StrKey ''Yes'', NO_SHOW_COLOR), (StrKey ''No'', SHOW_COLOR)]
               (''Attendance by '' @ feature))"

definition update_target_graph :: "tables \<Rightarrow> string \<Rightarrow> py_error + figure" where
  "update_target_graph g _ =
     map_sum id (update_layout ''white'' 24 ''white'' ''#2c3e50'' ''#1E1E1E'')
       (px_pie (DF (df g)) ''No-show'' ''No-show''
          [(StrKey ''Yes'', NO_SHOW_COLOR), (StrKey ''No'', SHOW_COLOR)]
          ''Show vs No-Show Distribution'')"

definition update_gender_graph :: "tables \<Rightarrow> string \<Rightarrow> py_error + figure" where
  "update_gender_graph g _ =
     (let gender_counts =
            Counts ''Gender'' (groupby_size (\<lambda>r. (Gender r, No_show_flag r)) (df g))
      in map_sum id (update_layout ''white'' 24 ''white'' ''#2c3e50'' ''#1E1E1E'')
           (px_bar gender_counts ''Gender'' ''count'' (Some ''No-show_flag'') (Some ''group'')
              [(IntKey 1, NO_SHOW_COLOR), (IntKey 0, SHOW_COLOR)] None
              ''Attendance by Gender (0=Show, 1=No-show)''))"

definition update_sms_graph :: "tables \<Rightarrow> string \<Rightarrow> py_error + figure" where
  "update_sms_graph g _ =
     (let sms_counts =
            Counts ''SMS_received_label''
              (groupby_size (\<lambda>r. (SMS_received_label r, No_show_flag r)) (df g))
      in map_sum id (update_layout ''white'' 24 ''white'' ''#2c3e50'' ''#1E1E1E'')
           (px_bar sms_counts ''SMS_received_label'' ''count'' (Some ''No-show_flag'')
              (Some ''group'') [(IntKey 1, NO_SHOW_COLOR), (IntKey 0, SHOW_COLOR)] None
              ''Attendance by SMS Received (0=Show, 1=No-show)''))"

definition update_waiting_by_day :: "tables \<Rightarrow> string \<Rightarrow> py_error + figure" where
  "update_waiting_by_day g _ =
     map_sum id (update_layout ''white'' 24 ''white'' ''#2c3e50'' ''#1E1E1E'')
       (px_box (DF (df g)) ''AppointmentDayOfWeek'' ''WaitingDays'' ''No-show''
          [(StrKey ''Yes'', NO_SHOW_COLOR), (StrKey ''No'', SHOW_COLOR)]
          ''Waiting Days by Appointment Day of the Week'')"

definition update_age_rate_graph :: "tables \<Rightarrow> string \<Rightarrow> py_error + figure" where
  "update_age_rate_graph g _ =
     map_sum id (update_layout ''white'' 24 ''white'' ''#2c3e50'' ''#1E1E1E'')
       (px_bar (AgeRates (age_group_rate g)) ''Age_Group'' ''No-show Rate (%)'' None None []
          (Some [NO_SHOW_COLOR]) ''No-Show Rate by Age Group'')"

definition update_day_rate_graph :: "tables \<Rightarrow> string \<Rightarrow> py_error + figure" where
  "update_day_rate_graph g _ =
     map_sum id (update_layout ''white'' 24 ''white'' ''#2c3e50'' ''#1E1E1E'')
       (px_bar (DayRates (day_rate g)) ''AppointmentDayOfWeek'' ''No-show Rate (%)'' None None []
          (Some [NO_SHOW_COLOR]) ''No-Show Rate by Day of the Week'')"

section \<open>The page and its dropdown (lines 47 to 88)\<close>

text \<open>The dropdown's options, each a label and a value (lines 64 to 73), and its
  initial value (line 74).\<close>

definition dropdown_options :: "(string \<times> string) list" where
  "dropdown_options =
     [(''Age'', ''Age''), (''Gender'', ''Gender''), (''Scholarship'', ''Scholarship''),
      (''Hypertension'', ''Hipertension''), (''Diabetes'', ''Diabetes''),
      (''Alcoholism'', ''Alcoholism''), (''SMS Received'', ''SMS_received''),
      (''Waiting Days'', ''WaitingDays'')]"

definition dropdown_values :: "string list" where
  "dropdown_values = map snd dropdown_options"

definition initial_value :: string where
  "initial_value = ''Age''"

text \<open>The format \<^verbatim>\<open>:,\<close> of a count: the digits in groups of three from the right.\<close>

fun commas :: "string \<Rightarrow> string" where
  "commas (a # b # c # d # rest) = a # b # c # CHR '','' # commas (d # rest)"
| "commas s = s"

definition format_comma :: "nat \<Rightarrow> string" where
  "format_comma n = rev (commas (rev (str_nat n)))"

text \<open>The four cards, built in the order of the layout. A card that raises stops the
  construction of the layout, and with it the start of the server.\<close>

definition layout_cards :: "row list \<Rightarrow> py_error + (string \<times> string) list" where
  "layout_cards rows =
     (let total = format_comma (length rows);
          average = (case mean (map Age rows) of None \<Rightarrow> ''nan'' | Some m \<Rightarrow> format_1f m)
      in case show_rate_card rows of
           Inl e \<Rightarrow> Inl e
         | Inr shown \<Rightarrow>
             (case no_show_rate_card rows of
                Inl e \<Rightarrow> Inl e
              | Inr missed \<Rightarrow>
                  Inr [(''Total Appointments'', total), (''Average Age'', average),
                       (''Show Rate'', shown), (''No-Show Rate'', missed)]))"

text \<open>Each callback with the id of the graph it writes.\<close>

definition callbacks :: "(string \<times> (tables \<Rightarrow> string \<Rightarrow> py_error + figure)) list" where
  "callbacks =
     [(''main-graph'', update_main_graph),
      (''target-distribution'', update_target_graph),
      (''gender-impact-graph'', update_gender_graph),
      (''sms-impact-graph'', update_sms_graph),
      (''waitingdays-by-day'', update_waiting_by_day),
      (''age-group-rate-graph'', update_age_rate_graph),
      (''day-of-week-rate-graph'', update_day_rate_graph)]"

text \<open>The served dashboard: the global tables, the cards of the layout, the value the
  dropdown shows and the figure in each graph. A change of the dropdown runs every
  callback with the new value; no callback assigns to a global, so the tables are handed
  on as they are.\<close>

record dashboard =
  globals :: tables
  cards :: "(string \<times> string) list"
  selected :: string
  graphs :: "(string \<times> (py_error + figure)) list"

definition fire :: "tables \<Rightarrow> string \<Rightarrow> (string \<times> (py_error + figure)) list" where
  "fire g v = map (\<lambda>(out, cb). (out, cb g v)) callbacks"

definition on_change :: "dashboard \<Rightarrow> string \<Rightarrow> dashboard" where
  "on_change s v = s\<lparr> selected := v, graphs := fire (globals s) v \<rparr>"

definition startup :: "raw_row list \<Rightarrow> py_error + dashboard" where
  "startup raw =
     (let g = load raw
      in case layout_cards (df g) of
           Inl e \<Rightarrow> Inl e
         | Inr cs \<Rightarrow> Inr \<lparr> globals = g, cards = cs, selected = initial_value,
                          graphs = fire g initial_value \<rparr>)"

section \<open>The specification's wording\<close>

text \<open>Two sentences of the specification are written out as definitions of their own, to
  be compared with what the script computes.

  The waiting days as the specification words them: the difference of the two
  timestamps "truncated to whole days", the fraction of a day dropped whatever the sign.\<close>

definition spec_waiting_days :: "timestamp \<Rightarrow> timestamp \<Rightarrow> int" where
  "spec_waiting_days appointment scheduled =
     (let delta = appointment - scheduled in sgn delta * (\<bar>delta\<bar> div ns_per_day))"

text \<open>The main chart as the specification words it: an overlaid histogram of 50 bins
  split by outcome for the age and the waiting days, a grouped-bar histogram split by
  outcome for any other feature.\<close>

definition spec_main_chart :: "string \<Rightarrow> figure \<Rightarrow> bool" where
  "spec_main_chart feature fig =
     (if feature = ''Age'' \<or> feature = ''WaitingDays''
      then kind fig = Histogram \<and> barmode fig = Some ''overlay'' \<and> nbins fig = Some 50
           \<and> x_arg fig = Some feature \<and> color_arg fig = Some ''No-show''
           \<and> \<not> color_is_continuous fig
      else kind fig = Histogram \<and> barmode fig = Some ''group''
           \<and> x_arg fig = Some feature \<and> color_arg fig = Some ''No-show''
           \<and> \<not> color_is_continuous fig)"

section \<open>Example appointments\<close>

text \<open>A woman's appointment booked on Friday 2016-04-29 at 18:38:08 for Tuesday
  2016-05-03, with the given age and outcome; and one booked at the same moment for the
  day of the booking itself, whose appointment timestamp (midnight) lies before the
  booking.\<close>

definition visit :: "int \<Rightarrow> string \<Rightarrow> raw_row" where
  "visit age outcome =
     \<lparr> Gender = ''F'', ScheduledDay = 1461955088000000000,
       AppointmentDay = 1462233600000000000, Age = age, Scholarship = 0, Hipertension = 0,
       Diabetes = 0, Alcoholism = 0, SMS_received = 0, No_show = outcome \<rparr>"

definition same_day_visit :: raw_row where
  "same_day_visit = (visit 62 ''No'')\<lparr> AppointmentDay := 1461888000000000000 \<rparr>"

section \<open>Properties of the cleaning\<close>

lemma truncate_derive: "raw_row.truncate (derive r) = r"
  by (simp add: derive_def raw_row.truncate_def)

lemma Age_derive: "Age (derive r) = Age r"
  by (simp add: derive_def)

lemma Age_Group_derive: "Age_Group (derive r) = pd_cut age_bins (Age r)"
  by (simp add: derive_def)

lemma WaitingDays_derive:
  "WaitingDays (derive r) = (AppointmentDay r - ScheduledDay r) div ns_per_day"
  by (simp add: derive_def dt_days_def)

lemma stamps_derive:
  "AppointmentDay (derive r) = AppointmentDay r" "ScheduledDay (derive r) = ScheduledDay r"
  by (simp_all add: derive_def)

lemma globals_on_change: "globals (on_change s v) = globals s"
  by (simp add: on_change_def)

lemma globals_foldl_on_change: "globals (foldl on_change s events) = globals s"
  by (induction events arbitrary: s) (simp_all add: globals_on_change)

lemma startup_globals: "startup raw = Inr s \<Longrightarrow> globals s = load raw"
  by (auto simp: startup_def Let_def split: sum.splits)

lemma df_load: "df (load raw) = clean raw"
  by (simp add: load_def Let_def)

lemma clean_visit: "clean [visit a out] = (if 0 \<le> a then [derive (visit a out)] else [])"
  by (simp add: clean_def visit_def)

section \<open>Arithmetic and look-up lemmas\<close>

lemma trunc_vs_floor:
  fixes d n :: int
  assumes "0 < n"
  shows "d div n = (if 0 \<le> d \<or> n dvd d then sgn d * (\<bar>d\<bar> div n) else sgn d * (\<bar>d\<bar> div n) - 1)"
proof (cases "0 \<le> d")
  case True
  then show ?thesis by (cases "d = 0") (simp_all add: sgn_if)
next
  case False
  then have neg: "d < 0" by simp
  then have s: "sgn d * (\<bar>d\<bar> div n) = - ((- d) div n)" by (simp add: sgn_if)
  show ?thesis
  proof (cases "n dvd d")
    case True
    then obtain k where k: "d = n * k" ..
    then have "- d = n * (- k)" by simp
    then have "(- d) div n = - k" using assms by (metis nonzero_mult_div_cancel_left less_irrefl)
    moreover have "d div n = k" using k assms by simp
    ultimately show ?thesis using True by (simp add: s)
  next
    case False
    then have "(- d) div n = - (d div n) - 1"
      using assms by (simp add: zdiv_zminus1_eq_if dvd_eq_mod_eq_0)
    with False neg show ?thesis by (simp add: s)
  qed
qed


lemma map_of_value_counts:
  "map_of (value_counts_normalize xs) k =
     (if k \<in> set xs then Some (rat_of_nat (count_list xs k) / rat_of_nat (length xs)) else None)"
  by (simp add: value_counts_normalize_def map_of_map_restrict restrict_map_def)

lemma getitem_missing:
  "k \<notin> set xs \<Longrightarrow> series_getitem (value_counts_normalize xs) k = Inl KeyError"
  by (simp add: series_getitem_def map_of_value_counts)

lemma getitem_present:
  "k \<in> set xs \<Longrightarrow> series_getitem (value_counts_normalize xs) k
      = Inr (rat_of_nat (count_list xs k) / rat_of_nat (length xs))"
  by (simp add: series_getitem_def map_of_value_counts)

lemma count_list_all_same: "list_all (\<lambda>x. x = k) xs \<Longrightarrow> count_list xs k = length xs"
  by (induction xs) auto

lemma format_1f_100: "format_1f 100 = ''100.0''"
  by (simp add: format_1f_def round_half_even_def Let_def str_nat.simps)

lemma format_1f_0: "format_1f 0 = ''0.0''"
  by (simp add: format_1f_def round_half_even_def Let_def str_nat.simps)

lemma all_yes_share:
  assumes "rows \<noteq> []" and "list_all (\<lambda>r. No_show r = ''Yes'') rows"
  shows "series_getitem (value_counts_normalize (map No_show rows)) ''Yes'' = Inr 1"
proof -
  have all: "list_all (\<lambda>x. x = ''Yes'') (map No_show rows)"
    using assms(2) by (simp add: list_all_iff)
  have mem: "''Yes'' \<in> set (map No_show rows)"
    using assms by (cases rows) (auto simp: list_all_iff)
  have "count_list (map No_show rows) ''Yes'' = length rows"
    using count_list_all_same [OF all] by simp
  with mem assms(1) show ?thesis
    by (simp add: getitem_present)
qed

lemma startup_ok:
  assumes "''Yes'' \<in> set (map No_show (clean raw))"
  shows "startup raw = Inr (projr (startup raw))"
  using getitem_present [OF assms]
  by (simp add: show_rate_card_def no_show_rate_card_def startup_def layout_cards_def
        load_def Let_def)



section \<open>Negative ages are dropped, and the table stays as cleaned\<close>

text \<open>
  Claim C7. After cleaning every row has an age of at least 0: the cleaned table,
  read on the columns of the CSV, is the raw table without its rows of negative age, in
  the same order. No callback changes the table: in every state the served dashboard
  reaches, whatever the dropdown changes, the data frame is the cleaned table.
\<close>

theorem cleaned_age_nonneg:
  "list_all (\<lambda>r. 0 \<le> Age r) (clean raw) \<and>
   map raw_row.truncate (clean raw) = filter (\<lambda>r. 0 \<le> Age r) raw \<and>
   (startup raw = Inr s \<longrightarrow> df (globals (foldl on_change s events)) = clean raw)"
proof (intro conjI impI)
  show "list_all (\<lambda>r. 0 \<le> Age r) (clean raw)"
    by (simp add: clean_def list_all_iff Age_derive)
  show "map raw_row.truncate (clean raw) = filter (\<lambda>r. 0 \<le> Age r) raw"
    by (simp add: clean_def comp_def truncate_derive)
  assume "startup raw = Inr s"
  then show "df (globals (foldl on_change s events)) = clean raw"
    by (simp add: globals_foldl_on_change startup_globals df_load)
qed

theorem cleaned_age_nonneg_witness:
  "map Age (clean [visit (- 1) ''Yes'', visit 5 ''Yes'']) = [5] \<and>
   startup [visit (- 1) ''Yes'', visit 5 ''Yes'']
     = Inr (projr (startup [visit (- 1) ''Yes'', visit 5 ''Yes''])) \<and>
   df (globals (foldl on_change (projr (startup [visit (- 1) ''Yes'', visit 5 ''Yes'']))
                  [''Gender'', ''Age'']))
     = clean [visit (- 1) ''Yes'', visit 5 ''Yes'']"
proof -
  have c: "clean [visit (- 1) ''Yes'', visit 5 ''Yes''] = [derive (visit 5 ''Yes'')]"
    by (simp add: clean_def visit_def)
  have "''Yes'' \<in> set (map No_show (clean [visit (- 1) ''Yes'', visit 5 ''Yes'']))"
    unfolding c by (simp add: derive_def visit_def)
  then have ok: "startup [visit (- 1) ''Yes'', visit 5 ''Yes'']
                   = Inr (projr (startup [visit (- 1) ''Yes'', visit 5 ''Yes'']))"
    by (rule startup_ok)
  have "map Age (clean [visit (- 1) ''Yes'', visit 5 ''Yes'']) = [5]"
    unfolding c by (simp add: Age_derive visit_def)
  then show ?thesis
    using ok cleaned_age_nonneg [of "[visit (- 1) ''Yes'', visit 5 ''Yes'']"
        "projr (startup [visit (- 1) ''Yes'', visit 5 ''Yes''])" "[''Gender'', ''Age'']"]
    by simp
qed

section \<open>The waiting days\<close>

text \<open>
  Claim C3, as the specification states it: the waiting days of every cleaned row are the
  difference of the appointment and the booking truncated to whole days, also where the
  difference is negative. The script disagrees on an appointment booked at 18:38 for the
  same day: the difference is minus 18 hours 38 minutes 8 seconds, which truncates to 0
  days, and the script's column holds -1.
\<close>

theorem waiting_days_truncated_counterexample:
  "clean [same_day_visit] = [derive same_day_visit] \<and>
   WaitingDays (derive same_day_visit) = - 1 \<and>
   spec_waiting_days (AppointmentDay (derive same_day_visit))
     (ScheduledDay (derive same_day_visit)) = 0"
  by (simp add: clean_def same_day_visit_def visit_def WaitingDays_derive stamps_derive
      spec_waiting_days_def ns_per_day_def)

text \<open>
  Claim C3, amended: the waiting days of every cleaned row are the difference of the
  appointment and the booking rounded down to whole days (the floor). That is the
  truncated value when the difference is not negative or is a whole number of days, and
  one day less otherwise.
\<close>

theorem waiting_days_floor:
  "list_all
     (\<lambda>r. let delta = AppointmentDay r - ScheduledDay r
          in WaitingDays r * ns_per_day \<le> delta \<and> delta < (WaitingDays r + 1) * ns_per_day
             \<and> WaitingDays r =
                 (if 0 \<le> delta \<or> ns_per_day dvd delta
                  then spec_waiting_days (AppointmentDay r) (ScheduledDay r)
                  else spec_waiting_days (AppointmentDay r) (ScheduledDay r) - 1))
     (clean raw)"
proof -
  define P where "P = (\<lambda>r::row. let delta = AppointmentDay r - ScheduledDay r
          in WaitingDays r * ns_per_day \<le> delta \<and> delta < (WaitingDays r + 1) * ns_per_day
             \<and> WaitingDays r =
                 (if 0 \<le> delta \<or> ns_per_day dvd delta
                  then spec_waiting_days (AppointmentDay r) (ScheduledDay r)
                  else spec_waiting_days (AppointmentDay r) (ScheduledDay r) - 1))"
  have pos: "0 < ns_per_day" by (simp add: ns_per_day_def)
  have "P (derive r)" for r
  proof -
    define delta where "delta = AppointmentDay r - ScheduledDay r"
    have split: "delta div ns_per_day * ns_per_day + delta mod ns_per_day = delta"
      by simp
    have rest: "0 \<le> delta mod ns_per_day" "delta mod ns_per_day < ns_per_day"
      using pos by simp_all
    have lo: "(delta div ns_per_day) * ns_per_day \<le> delta"
      using split rest(1) by linarith
    have "(delta div ns_per_day + 1) * ns_per_day
            = delta div ns_per_day * ns_per_day + ns_per_day"
      by (simp add: distrib_right)
    then have hi: "delta < (delta div ns_per_day + 1) * ns_per_day"
      using split rest(2) by linarith
    have "delta div ns_per_day =
            (if 0 \<le> delta \<or> ns_per_day dvd delta
             then sgn delta * (\<bar>delta\<bar> div ns_per_day)
             else sgn delta * (\<bar>delta\<bar> div ns_per_day) - 1)"
      by (rule trunc_vs_floor [OF pos])
    with lo hi show ?thesis
      unfolding P_def Let_def stamps_derive WaitingDays_derive spec_waiting_days_def
        delta_def [symmetric]
      by blast
  qed
  then have "list_all P (clean raw)"
    by (simp add: clean_def list_all_iff)
  then show ?thesis
    unfolding P_def .
qed

theorem waiting_days_floor_witness:
  "map WaitingDays (clean [same_day_visit, visit 5 ''Yes'']) = [- 1, 3] \<and>
   list_all
     (\<lambda>r. let delta = AppointmentDay r - ScheduledDay r
          in WaitingDays r * ns_per_day \<le> delta \<and> delta < (WaitingDays r + 1) * ns_per_day
             \<and> WaitingDays r =
                 (if 0 \<le> delta \<or> ns_per_day dvd delta
                  then spec_waiting_days (AppointmentDay r) (ScheduledDay r)
                  else spec_waiting_days (AppointmentDay r) (ScheduledDay r) - 1))
     (clean [same_day_visit, visit 5 ''Yes''])"
proof -
  have "map WaitingDays (clean [same_day_visit, visit 5 ''Yes'']) = [- 1, 3]"
    by (simp add: clean_def same_day_visit_def visit_def WaitingDays_derive ns_per_day_def)
  then show ?thesis
    using waiting_days_floor [of "[same_day_visit, visit 5 ''Yes'']"] by simp
qed

section \<open>The show-rate and no-show-rate cards\<close>

text \<open>
  Claim C6. Given a cleaned table of appointments, every row of which did not attend
  (\<^verbatim>\<open>No-show\<close> is \<^verbatim>\<open>'Yes'\<close>), the show-rate card reads 0.0% and the no-show-rate card
  reads 100.0%. The table of the example has rows: the share of \<^verbatim>\<open>'Yes'\<close> among them is 1.
\<close>

theorem all_no_show_cards:
  assumes "rows \<noteq> []" and "list_all (\<lambda>r. No_show r = ''Yes'') rows"
  shows "show_rate_card rows = Inr ''0.0%'' \<and> no_show_rate_card rows = Inr ''100.0%''"
  using all_yes_share [OF assms]
  by (simp add: show_rate_card_def no_show_rate_card_def format_1f_100 format_1f_0)

theorem all_no_show_cards_witness:
  "clean [visit 5 ''Yes'', visit 70 ''Yes''] \<noteq> [] \<and>
   list_all (\<lambda>r. No_show r = ''Yes'') (clean [visit 5 ''Yes'', visit 70 ''Yes'']) \<and>
   show_rate_card (clean [visit 5 ''Yes'', visit 70 ''Yes'']) = Inr ''0.0%'' \<and>
   no_show_rate_card (clean [visit 5 ''Yes'', visit 70 ''Yes'']) = Inr ''100.0%''"
proof -
  have c: "clean [visit 5 ''Yes'', visit 70 ''Yes'']
             = [derive (visit 5 ''Yes''), derive (visit 70 ''Yes'')]"
    by (simp add: clean_def visit_def)
  have ne: "clean [visit 5 ''Yes'', visit 70 ''Yes''] \<noteq> []"
    unfolding c by simp
  have yes: "list_all (\<lambda>r. No_show r = ''Yes'') (clean [visit 5 ''Yes'', visit 70 ''Yes''])"
    unfolding c by (simp add: derive_def visit_def)
  show ?thesis
    using ne yes all_no_show_cards [OF ne yes] by simp
qed

text \<open>
  Claim C10. The two rate cards are not built for every cleaned table: on any table
  with no row of outcome \<^verbatim>\<open>'Yes'\<close> the look-up at \<^verbatim>\<open>'Yes'\<close> raises \<^verbatim>\<open>KeyError\<close> in both, so
  the cards do not read 100.0% and 0.0%, and the layout, and with it the start of the
  server, fails with that error.
\<close>

theorem cards_key_error:
  assumes "list_all (\<lambda>r. No_show r \<noteq> ''Yes'') (clean raw)"
  shows "show_rate_card (clean raw) = Inl KeyError \<and>
         show_rate_card (clean raw) \<noteq> Inr ''100.0%'' \<and>
         no_show_rate_card (clean raw) = Inl KeyError \<and>
         no_show_rate_card (clean raw) \<noteq> Inr ''0.0%'' \<and>
         startup raw = Inl KeyError"
proof -
  have "''Yes'' \<notin> set (map No_show (clean raw))"
    using assms by (auto simp: list_all_iff)
  then have "series_getitem (value_counts_normalize (map No_show (clean raw))) ''Yes''
               = Inl KeyError"
    by (rule getitem_missing)
  then show ?thesis
    by (simp add: show_rate_card_def no_show_rate_card_def startup_def layout_cards_def
        load_def Let_def)
qed

theorem cards_key_error_witness:
  "length (clean [visit 5 ''No'', visit 70 ''No'']) = 2 \<and>
   list_all (\<lambda>r. No_show r \<noteq> ''Yes'') (clean [visit 5 ''No'', visit 70 ''No'']) \<and>
   show_rate_card (clean [visit 5 ''No'', visit 70 ''No'']) = Inl KeyError \<and>
   no_show_rate_card (clean [visit 5 ''No'', visit 70 ''No'']) = Inl KeyError \<and>
   startup [visit 5 ''No'', visit 70 ''No''] = Inl KeyError"
proof -
  have c: "clean [visit 5 ''No'', visit 70 ''No'']
             = [derive (visit 5 ''No''), derive (visit 70 ''No'')]"
    by (simp add: clean_def visit_def)
  have no: "list_all (\<lambda>r. No_show r \<noteq> ''Yes'') (clean [visit 5 ''No'', visit 70 ''No''])"
    unfolding c by (simp add: derive_def visit_def)
  have "length (clean [visit 5 ''No'', visit 70 ''No'']) = 2"
    unfolding c by simp
  then show ?thesis
    using no cards_key_error [OF no] by simp
qed

section \<open>The age-group summary\<close>

lemma pd_cut_age_bins:
  "pd_cut age_bins a =
     (if 0 \<le> a \<and> a < 100 then Some (10 * (a div 10), 10 * (a div 10) + 10) else None)"
  unfolding age_bins_def by (simp; presburger)

lemma intervals_age_bins:
  "intervals age_bins =
     [(0, 10), (10, 20), (20, 30), (30, 40), (40, 50), (50, 60), (60, 70), (70, 80),
      (80, 90), (90, 100)]"
  by (simp add: age_bins_def)

lemma pd_cut_in_bucket:
  assumes "c \<in> set (intervals age_bins)"
  shows "pd_cut age_bins a = Some c \<longleftrightarrow> fst c \<le> a \<and> a < snd c"
  using assms unfolding intervals_age_bins pd_cut_age_bins
  by (auto; presburger)

lemma Age_Group_clean:
  "r \<in> set (clean raw) \<Longrightarrow> Age_Group r = pd_cut age_bins (Age r)"
  by (auto simp: clean_def Age_Group_derive Age_derive)

lemma groupby_categorical_mean_cong:
  assumes "\<And>r c. r \<in> set rows \<Longrightarrow> c \<in> set cats \<Longrightarrow> key r = Some c \<longleftrightarrow> P c r"
  shows "groupby_categorical_mean cats key val rows =
           map (\<lambda>c. (c, mean (map val (filter (P c) rows))))
               (filter (\<lambda>c. filter (P c) rows \<noteq> []) cats)"
proof -
  have f: "filter (\<lambda>r. key r = Some c) rows = filter (P c) rows" if "c \<in> set cats" for c
    using assms that by (intro filter_cong) auto
  have m: "Some c \<in> set (map key rows) \<longleftrightarrow> filter (P c) rows \<noteq> []" if "c \<in> set cats" for c
  proof -
    have "Some c \<in> set (map key rows) \<longleftrightarrow> (\<exists>r\<in>set rows. key r = Some c)"
      by (metis (mono_tags, lifting) image_iff list.set_map)
    also have "\<dots> \<longleftrightarrow> (\<exists>r\<in>set rows. P c r)"
      using assms that by blast
    finally show ?thesis by (simp add: filter_empty_conv)
  qed
  have "filter (\<lambda>c. Some c \<in> set (map key rows)) cats = filter (\<lambda>c. filter (P c) rows \<noteq> []) cats"
    using m by (intro filter_cong) auto
  then show ?thesis
    unfolding groupby_categorical_mean_def using f by simp
qed

lemma groupby_categorical_mean_drop:
  assumes "\<And>r. r \<in> set rows \<Longrightarrow> key r \<noteq> None \<Longrightarrow> Q r"
  shows "groupby_categorical_mean cats key val (filter Q rows) =
         groupby_categorical_mean cats key val rows"
proof -
  have f: "filter (\<lambda>r. key r = Some c) (filter Q rows) = filter (\<lambda>r. key r = Some c) rows" for c
    using assms by (simp, intro filter_cong) auto
  have "Some c \<in> set (map key (filter Q rows)) \<longleftrightarrow> Some c \<in> set (map key rows)" for c
    using assms by force
  then show ?thesis
    unfolding groupby_categorical_mean_def using f by simp
qed


text \<open>
  Claim C4. Every cleaned row of age below 100 is in the decade \<open>[10k, 10k + 10)\<close> that
  holds its age, and a row of age 100 or more is in no bucket. Such rows contribute to no
  summary row: the summary of the table is the summary of the table without them. The
  summary has one row for each decade that holds a row, in rising order, and its rate is
  the mean of the no-show flag over the rows of the decade, times 100.
\<close>

theorem age_group_summary:
  "list_all (\<lambda>r. Age_Group r =
               (if Age r < 100 then Some (10 * (Age r div 10), 10 * (Age r div 10) + 10)
                else None)) (clean raw)
   \<and> age_group_rate_of (clean raw) = age_group_rate_of (filter (\<lambda>r. Age r < 100) (clean raw))
   \<and> age_group_rate_of (clean raw) =
       map (\<lambda>c. let flags = map No_show_flag
                              (filter (\<lambda>r. fst c \<le> Age r \<and> Age r < snd c) (clean raw))
                in \<lparr> agr_Age_Group = interval_str c,
                     agr_No_show_flag =
                       Some (rat_of_int (sum_list flags) / rat_of_int (int (length flags))),
                     agr_No_show_Rate =
                       Some (rat_of_int (sum_list flags) / rat_of_int (int (length flags))
                             * 100) \<rparr>)
           (filter (\<lambda>c. filter (\<lambda>r. fst c \<le> Age r \<and> Age r < snd c) (clean raw) \<noteq> [])
              [(0, 10), (10, 20), (20, 30), (30, 40), (40, 50), (50, 60), (60, 70), (70, 80),
               (80, 90), (90, 100)])"
proof (intro conjI)
  show "list_all (\<lambda>r. Age_Group r =
               (if Age r < 100 then Some (10 * (Age r div 10), 10 * (Age r div 10) + 10)
                else None)) (clean raw)"
    by (auto simp: list_all_iff clean_def Age_Group_derive Age_derive pd_cut_age_bins)
  have "Age r < 100" if "r \<in> set (clean raw)" "Age_Group r \<noteq> None" for r
    using that Age_Group_clean [OF that(1)] by (simp add: pd_cut_age_bins split: if_splits)
  then have "groupby_categorical_mean (intervals age_bins) Age_Group No_show_flag
               (filter (\<lambda>r. Age r < 100) (clean raw))
             = groupby_categorical_mean (intervals age_bins) Age_Group No_show_flag (clean raw)"
    by (rule groupby_categorical_mean_drop)
  then show "age_group_rate_of (clean raw) =
             age_group_rate_of (filter (\<lambda>r. Age r < 100) (clean raw))"
    by (simp add: age_group_rate_of_def)
  have "Age_Group r = Some c \<longleftrightarrow> fst c \<le> Age r \<and> Age r < snd c"
    if "r \<in> set (clean raw)" "c \<in> set (intervals age_bins)" for r c
    using Age_Group_clean [OF that(1)] pd_cut_in_bucket [OF that(2)] by simp
  then have g: "groupby_categorical_mean (intervals age_bins) Age_Group No_show_flag (clean raw)
      = map (\<lambda>c. (c, mean (map No_show_flag
                     (filter (\<lambda>r. fst c \<le> Age r \<and> Age r < snd c) (clean raw)))))
          (filter (\<lambda>c. filter (\<lambda>r. fst c \<le> Age r \<and> Age r < snd c) (clean raw) \<noteq> [])
             (intervals age_bins))"
    by (rule groupby_categorical_mean_cong)
  show "age_group_rate_of (clean raw) =
       map (\<lambda>c. let flags = map No_show_flag
                              (filter (\<lambda>r. fst c \<le> Age r \<and> Age r < snd c) (clean raw))
                in \<lparr> agr_Age_Group = interval_str c,
                     agr_No_show_flag =
                       Some (rat_of_int (sum_list flags) / rat_of_int (int (length flags))),
                     agr_No_show_Rate =
                       Some (rat_of_int (sum_list flags) / rat_of_int (int (length flags))
                             * 100) \<rparr>)
           (filter (\<lambda>c. filter (\<lambda>r. fst c \<le> Age r \<and> Age r < snd c) (clean raw) \<noteq> [])
              [(0, 10), (10, 20), (20, 30), (30, 40), (40, 50), (50, 60), (60, 70), (70, 80),
               (80, 90), (90, 100)])"
    unfolding age_group_rate_of_def g intervals_age_bins [symmetric]
    by (simp add: mean_def Let_def comp_def)
qed


theorem age_group_summary_witness:
  "map Age_Group (clean [visit 34 ''Yes'', visit 105 ''Yes'', visit 35 ''No'', visit 7 ''No''])
     = [Some (30, 40), None, Some (30, 40), Some (0, 10)] \<and>
   age_group_rate_of (clean [visit 34 ''Yes'', visit 105 ''Yes'', visit 35 ''No'', visit 7 ''No''])
     = age_group_rate_of (filter (\<lambda>r. Age r < 100)
         (clean [visit 34 ''Yes'', visit 105 ''Yes'', visit 35 ''No'', visit 7 ''No''])) \<and>
   age_group_rate_of (clean [visit 34 ''Yes'', visit 105 ''Yes'', visit 35 ''No'', visit 7 ''No''])
     = [\<lparr> agr_Age_Group = ''[0, 10)'', agr_No_show_flag = Some 0, agr_No_show_Rate = Some 0 \<rparr>,
        \<lparr> agr_Age_Group = ''[30, 40)'', agr_No_show_flag = Some (1 / 2),
          agr_No_show_Rate = Some 50 \<rparr>]"
proof -
  have c: "clean [visit 34 ''Yes'', visit 105 ''Yes'', visit 35 ''No'', visit 7 ''No'']
             = [derive (visit 34 ''Yes''), derive (visit 105 ''Yes''), derive (visit 35 ''No''),
                derive (visit 7 ''No'')]"
    by (simp add: clean_def visit_def)
  have d: "Age (derive (visit a out)) = a"
          "No_show_flag (derive (visit a out)) = (if out = ''Yes'' then 1 else 0)" for a out
    by (simp_all add: derive_def visit_def)
  have g: "map Age_Group
             (clean [visit 34 ''Yes'', visit 105 ''Yes'', visit 35 ''No'', visit 7 ''No''])
           = [Some (30, 40), None, Some (30, 40), Some (0, 10)]"
    unfolding c by (simp add: Age_Group_derive pd_cut_age_bins visit_def)
  have s: "interval_str (0, 10) = ''[0, 10)''" "interval_str (30, 40) = ''[30, 40)''"
    by (simp_all add: interval_str_def str_int_def str_nat.simps)
  note t = age_group_summary
    [of "[visit 34 ''Yes'', visit 105 ''Yes'', visit 35 ''No'', visit 7 ''No'']"]
  have "age_group_rate_of
          (clean [visit 34 ''Yes'', visit 105 ''Yes'', visit 35 ''No'', visit 7 ''No''])
     = [\<lparr> agr_Age_Group = ''[0, 10)'', agr_No_show_flag = Some 0, agr_No_show_Rate = Some 0 \<rparr>,
        \<lparr> agr_Age_Group = ''[30, 40)'', agr_No_show_flag = Some (1 / 2),
          agr_No_show_Rate = Some 50 \<rparr>]"
    using t [THEN conjunct2, THEN conjunct2] unfolding c
    by (simp add: d s Let_def)
  then show ?thesis
    using g t by simp
qed

section \<open>The weekday summary\<close>

lemma map_of_groupby_mean:
  "map_of (groupby_mean key val rows) k =
     (if k \<in> set (map key rows)
      then Some (mean (map val (filter (\<lambda>r. key r = k) rows))) else None)"
  by (simp add: groupby_mean_def map_of_map_restrict restrict_map_def)

lemma filter_key_empty: "k \<notin> set (map key rows) \<Longrightarrow> filter (\<lambda>r. key r = k) rows = []"
  by (induction rows) auto

lemma reindex_groupby_mean:
  "reindex (groupby_mean key val rows) labels =
     map (\<lambda>l. (l, mean (map val (filter (\<lambda>r. key r = l) rows)))) labels"
proof -
  have "(case map_of (groupby_mean key val rows) l of None \<Rightarrow> None | Some v \<Rightarrow> v)
          = mean (map val (filter (\<lambda>r. key r = l) rows))" for l
  proof (cases "l \<in> set (map key rows)")
    case True
    then show ?thesis by (simp add: map_of_groupby_mean)
  next
    case False
    then show ?thesis
      using filter_key_empty [OF False] by (simp add: map_of_groupby_mean mean_def)
  qed
  then show ?thesis by (simp add: reindex_def)
qed

lemma day_rate_of_eq:
  "day_rate_of rows =
     map (\<lambda>d. \<lparr> dr_AppointmentDayOfWeek = d,
                 dr_No_show_flag =
                   mean (map No_show_flag (filter (\<lambda>r. AppointmentDayOfWeek r = d) rows)),
                 dr_No_show_Rate = map_option (\<lambda>v. v * 100)
                   (mean (map No_show_flag (filter (\<lambda>r. AppointmentDayOfWeek r = d) rows))) \<rparr>)
         day_order"
  by (simp add: day_rate_of_def reindex_groupby_mean comp_def)


text \<open>
  Claim C5. The weekday summary has one row for each weekday name, in the order Monday,
  Tuesday, Wednesday, Thursday, Friday, Saturday, Sunday. The rate of a weekday with no
  appointment in the cleaned table is missing, and so is not 0; the rate of any other
  weekday is the mean of the no-show flag over its appointments, times 100.
\<close>

theorem weekday_summary:
  "map dr_AppointmentDayOfWeek (day_rate_of rows) =
     [''Monday'', ''Tuesday'', ''Wednesday'', ''Thursday'', ''Friday'', ''Saturday'', ''Sunday'']
   \<and> list_all
       (\<lambda>s. let rs = filter (\<lambda>r. AppointmentDayOfWeek r = dr_AppointmentDayOfWeek s) rows
            in if rs = [] then dr_No_show_Rate s = None \<and> dr_No_show_Rate s \<noteq> Some 0
               else dr_No_show_Rate s =
                      Some (rat_of_int (sum_list (map No_show_flag rs))
                              / rat_of_int (int (length rs)) * 100))
       (day_rate_of rows)"
proof
  show "map dr_AppointmentDayOfWeek (day_rate_of rows) =
     [''Monday'', ''Tuesday'', ''Wednesday'', ''Thursday'', ''Friday'', ''Saturday'', ''Sunday'']"
    by (simp add: day_rate_of_eq comp_def day_order_def)
  show "list_all
       (\<lambda>s. let rs = filter (\<lambda>r. AppointmentDayOfWeek r = dr_AppointmentDayOfWeek s) rows
            in if rs = [] then dr_No_show_Rate s = None \<and> dr_No_show_Rate s \<noteq> Some 0
               else dr_No_show_Rate s =
                      Some (rat_of_int (sum_list (map No_show_flag rs))
                              / rat_of_int (int (length rs)) * 100))
       (day_rate_of rows)"
    unfolding day_rate_of_eq list_all_iff
    by (auto simp: mean_def Let_def)
qed


theorem weekday_summary_witness:
  "map dr_AppointmentDayOfWeek (day_rate_of (clean [visit 30 ''Yes'', same_day_visit])) =
     [''Monday'', ''Tuesday'', ''Wednesday'', ''Thursday'', ''Friday'', ''Saturday'', ''Sunday'']
   \<and> map dr_No_show_Rate (day_rate_of (clean [visit 30 ''Yes'', same_day_visit])) =
     [None, Some 100, None, None, Some 0, None, None]"
proof -
  have c: "clean [visit 30 ''Yes'', same_day_visit]
             = [derive (visit 30 ''Yes''), derive same_day_visit]"
    by (simp add: clean_def visit_def same_day_visit_def)
  have d: "AppointmentDayOfWeek (derive (visit 30 ''Yes'')) = ''Tuesday''"
          "AppointmentDayOfWeek (derive same_day_visit) = ''Friday''"
          "No_show_flag (derive (visit 30 ''Yes'')) = 1"
          "No_show_flag (derive same_day_visit) = 0"
    by (simp_all add: derive_def visit_def same_day_visit_def day_name_def day_order_def
        ns_per_day_def)
  have "map dr_No_show_Rate (day_rate_of (clean [visit 30 ''Yes'', same_day_visit])) =
     [None, Some 100, None, None, Some 0, None, None]"
    unfolding c day_rate_of_eq by (simp add: d day_order_def mean_def)
  then show ?thesis
    using weekday_summary [of "clean [visit 30 ''Yes'', same_day_visit]"] by simp
qed

section \<open>The charts\<close>

lemma dropdown_values_eq:
  "dropdown_values = [''Age'', ''Gender'', ''Scholarship'', ''Hipertension'', ''Diabetes'',
     ''Alcoholism'', ''SMS_received'', ''WaitingDays'']"
  by (simp add: dropdown_values_def dropdown_options_def)

lemma df_has_feature:
  "feature \<in> set dropdown_values \<Longrightarrow> has_columns (DF rows) [feature, ''No-show'']"
  by (auto simp: dropdown_values_eq has_columns_def)

lemma main_graph_ok:
  assumes "feature \<in> set dropdown_values"
  shows "\<not> isl (update_main_graph g feature)"
  using df_has_feature [OF assms, of "df g"]
  by (simp add: update_main_graph_def px_histogram_def)

lemma static_graphs_ok:
  "\<not> isl (update_target_graph g v)" "\<not> isl (update_gender_graph g v)"
  "\<not> isl (update_sms_graph g v)" "\<not> isl (update_waiting_by_day g v)"
  "\<not> isl (update_age_rate_graph g v)" "\<not> isl (update_day_rate_graph g v)"
  by (simp_all add: update_target_graph_def
      update_gender_graph_def update_sms_graph_def update_waiting_by_day_def
      update_age_rate_graph_def update_day_rate_graph_def
      px_pie_def px_bar_def px_box_def has_columns_def Let_def)

lemma fire_ok:
  assumes "feature \<in> set dropdown_values"
  shows "list_all (\<lambda>(out, res). \<not> isl res) (fire g feature)"
  using main_graph_ok [OF assms, of g]
  by (simp add: fire_def callbacks_def static_graphs_ok)

lemma graphs_on_change: "graphs (on_change s v) = fire (globals s) v"
  by (simp add: on_change_def)

lemma startup_graphs: "startup raw = Inr s \<Longrightarrow> graphs s = fire (globals s) initial_value"
  by (auto simp: startup_def Let_def split: sum.splits)

lemma graphs_foldl_on_change:
  "graphs (foldl on_change s (events @ [v])) = fire (globals s) v"
  by (simp add: graphs_on_change globals_foldl_on_change)

text \<open>
  Claim C1. Every callback but the one of the main graph returns the same chart
  specification whatever the dropdown shows: the outcome pie, the gender bars, the SMS
  bars, the box plot of waiting days by weekday and the two rate bars (six callbacks). So
  the six graphs are the same in the three states the dashboard passes through when the
  dropdown goes from "Age" to "Gender" and back to "Age".
\<close>

theorem independent_charts:
  "update_target_graph g v = update_target_graph g w \<and>
   update_gender_graph g v = update_gender_graph g w \<and>
   update_sms_graph g v = update_sms_graph g w \<and>
   update_waiting_by_day g v = update_waiting_by_day g w \<and>
   update_age_rate_graph g v = update_age_rate_graph g w \<and>
   update_day_rate_graph g v = update_day_rate_graph g w \<and>
   map fst (filter (\<lambda>p. fst p \<noteq> ''main-graph'') (fire g v)) =
     [''target-distribution'', ''gender-impact-graph'', ''sms-impact-graph'',
      ''waitingdays-by-day'', ''age-group-rate-graph'', ''day-of-week-rate-graph''] \<and>
   filter (\<lambda>p. fst p \<noteq> ''main-graph'') (fire g v) =
     filter (\<lambda>p. fst p \<noteq> ''main-graph'') (fire g w) \<and>
   (let s1 = on_change s ''Age''; s2 = on_change s1 ''Gender''; s3 = on_change s2 ''Age''
    in filter (\<lambda>p. fst p \<noteq> ''main-graph'') (graphs s1) =
         filter (\<lambda>p. fst p \<noteq> ''main-graph'') (graphs s2) \<and>
       filter (\<lambda>p. fst p \<noteq> ''main-graph'') (graphs s2) =
         filter (\<lambda>p. fst p \<noteq> ''main-graph'') (graphs s3))"
  by (simp add: fire_def callbacks_def update_target_graph_def
      update_gender_graph_def update_sms_graph_def update_waiting_by_day_def
      update_age_rate_graph_def update_day_rate_graph_def on_change_def Let_def)

theorem independent_charts_witness:
  "update_target_graph (load [visit 30 ''Yes'']) ''Age''
     = update_target_graph (load [visit 30 ''Yes'']) ''Gender'' \<and>
   update_main_graph (load [visit 30 ''Yes'']) ''Age''
     \<noteq> update_main_graph (load [visit 30 ''Yes'']) ''Gender''"
proof -
  have "map_sum id title (update_main_graph (load [visit 30 ''Yes'']) ''Age'')
          \<noteq> map_sum id title (update_main_graph (load [visit 30 ''Yes'']) ''Gender'')"
    by (simp add: update_main_graph_def px_histogram_def has_columns_def
        update_layout_def update_xaxes_def update_yaxes_def)
  then have "update_main_graph (load [visit 30 ''Yes'']) ''Age''
     \<noteq> update_main_graph (load [visit 30 ''Yes'']) ''Gender''"
    by metis
  then show ?thesis
    using independent_charts [of "load [visit 30 ''Yes'']" "''Age''" "''Gender''"] by simp
qed

text \<open>
  Claim C2, as the specification states it: for "Age" and "WaitingDays" the main chart
  is an overlaid histogram of 50 bins split by outcome. The script asks for 50 bins and
  passes no bar mode, so the figure has the mode \<^verbatim>\<open>'relative'\<close>, in which the two outcome
  series are stacked, and not \<^verbatim>\<open>'overlay'\<close>. The table here is one the dashboard serves: a
  missed and an attended appointment.
\<close>

theorem main_graph_overlay_counterexample:
  "\<not> isl (startup [visit 30 ''Yes'', visit 40 ''No'']) \<and>
   map_sum id (spec_main_chart ''Age'')
     (update_main_graph (load [visit 30 ''Yes'', visit 40 ''No'']) ''Age'') = Inr False \<and>
   map_sum id barmode
     (update_main_graph (load [visit 30 ''Yes'', visit 40 ''No'']) ''Age'')
     = Inr (Some ''relative'')"
proof -
  have c: "clean [visit 30 ''Yes'', visit 40 ''No'']
             = [derive (visit 30 ''Yes''), derive (visit 40 ''No'')]"
    by (simp add: clean_def visit_def)
  have "''Yes'' \<in> set (map No_show (clean [visit 30 ''Yes'', visit 40 ''No'']))"
    unfolding c by (simp add: derive_def visit_def)
  then have "startup [visit 30 ''Yes'', visit 40 ''No'']
               = Inr (projr (startup [visit 30 ''Yes'', visit 40 ''No'']))"
    by (rule startup_ok)
  then have served: "\<not> isl (startup [visit 30 ''Yes'', visit 40 ''No''])"
    by (metis sum.disc(2))
  have "map_sum id (spec_main_chart ''Age'')
          (update_main_graph (load [visit 30 ''Yes'', visit 40 ''No'']) ''Age'') = Inr False"
       "map_sum id barmode
          (update_main_graph (load [visit 30 ''Yes'', visit 40 ''No'']) ''Age'')
          = Inr (Some ''relative'')"
    by (simp_all add: update_main_graph_def px_histogram_def has_columns_def
        spec_main_chart_def update_layout_def update_xaxes_def update_yaxes_def)
  with served show ?thesis
    by simp
qed

text \<open>
  Claim C2, amended: for every value of the dropdown the main chart is a histogram of the
  cleaned table over the selected column, split by outcome (the colour column is
  \<^verbatim>\<open>No-show\<close>, a discrete colour). For "Age" and "WaitingDays" it has 50 bins and the
  library's default bar mode \<^verbatim>\<open>'relative'\<close> (stacked series); for every other value it
  has the bar mode \<^verbatim>\<open>'group'\<close> and no bin count.
\<close>

theorem main_graph_kind:
  assumes "feature \<in> set dropdown_values"
  shows "\<exists>fig. update_main_graph g feature = Inr fig \<and> kind fig = Histogram
           \<and> data_frame fig = DF (df g)
           \<and> x_arg fig = Some feature \<and> color_arg fig = Some ''No-show''
           \<and> \<not> color_is_continuous fig
           \<and> (if feature = ''Age'' \<or> feature = ''WaitingDays''
              then nbins fig = Some 50 \<and> barmode fig = Some ''relative''
              else nbins fig = None \<and> barmode fig = Some ''group'')"
  using df_has_feature [OF assms, of "df g"]
  by (simp add: update_main_graph_def px_histogram_def
      update_layout_def update_xaxes_def update_yaxes_def)

theorem main_graph_kind_witness:
  "''WaitingDays'' \<in> set dropdown_values \<and> ''Gender'' \<in> set dropdown_values \<and>
   map_sum id (\<lambda>fig. (kind fig, nbins fig, barmode fig))
     (update_main_graph (load [visit 30 ''Yes'']) ''WaitingDays'')
     = Inr (Histogram, Some 50, Some ''relative'') \<and>
   map_sum id (\<lambda>fig. (kind fig, nbins fig, barmode fig))
     (update_main_graph (load [visit 30 ''Yes'']) ''Gender'')
     = Inr (Histogram, None, Some ''group'')"
proof -
  have w: "''WaitingDays'' \<in> set dropdown_values" and g: "''Gender'' \<in> set dropdown_values"
    by (simp_all add: dropdown_values_eq)
  show ?thesis
    using w g main_graph_kind [OF w, of "load [visit 30 ''Yes'']"]
      main_graph_kind [OF g, of "load [visit 30 ''Yes'']"]
    by auto
qed

text \<open>
  Claim C9. With a value of the dropdown, every callback returns a figure and none
  raises. So, once the dashboard serves, every graph holds a figure in every state it
  reaches by changes of the dropdown to values of the dropdown.
\<close>

theorem callbacks_total:
  "(feature \<in> set dropdown_values \<longrightarrow> list_all (\<lambda>(out, res). \<not> isl res) (fire g feature)) \<and>
   (startup raw = Inr s \<and> list_all (\<lambda>v. v \<in> set dropdown_values) events \<longrightarrow>
      list_all (\<lambda>(out, res). \<not> isl res) (graphs (foldl on_change s events)))"
proof (intro conjI impI)
  assume "feature \<in> set dropdown_values"
  then show "list_all (\<lambda>(out, res). \<not> isl res) (fire g feature)"
    by (rule fire_ok)
next
  assume a: "startup raw = Inr s \<and> list_all (\<lambda>v. v \<in> set dropdown_values) events"
  show "list_all (\<lambda>(out, res). \<not> isl res) (graphs (foldl on_change s events))"
  proof (cases events rule: rev_cases)
    case Nil
    have "initial_value \<in> set dropdown_values"
      by (simp add: initial_value_def dropdown_values_eq)
    then have "list_all (\<lambda>(out, res). \<not> isl res) (fire (globals s) initial_value)"
      by (rule fire_ok)
    with a Nil show ?thesis
      by (simp add: startup_graphs)
  next
    case (snoc es v)
    with a have "v \<in> set dropdown_values"
      by simp
    then have "list_all (\<lambda>(out, res). \<not> isl res) (fire (globals s) v)"
      by (rule fire_ok)
    then show ?thesis
      unfolding snoc graphs_foldl_on_change .
  qed
qed

theorem callbacks_total_witness:
  "''Hipertension'' \<in> set dropdown_values \<and>
   list_all (\<lambda>(out, res). \<not> isl res) (fire (load [visit 30 ''Yes'']) ''Hipertension'') \<and>
   startup [visit 30 ''Yes''] = Inr (projr (startup [visit 30 ''Yes''])) \<and>
   list_all (\<lambda>v. v \<in> set dropdown_values) [''Gender'', ''SMS_received''] \<and>
   list_all (\<lambda>(out, res). \<not> isl res)
     (graphs (foldl on_change (projr (startup [visit 30 ''Yes''])) [''Gender'', ''SMS_received'']))"
proof -
  have f: "''Hipertension'' \<in> set dropdown_values"
    and e: "list_all (\<lambda>v. v \<in> set dropdown_values) [''Gender'', ''SMS_received'']"
    by (simp_all add: dropdown_values_eq)
  have "''Yes'' \<in> set (map No_show (clean [visit 30 ''Yes'']))"
    by (simp add: clean_visit) (simp add: derive_def visit_def)
  then have ok: "startup [visit 30 ''Yes''] = Inr (projr (startup [visit 30 ''Yes'']))"
    by (rule startup_ok)
  show ?thesis
    using f e ok
      callbacks_total [of "''Hipertension''" "load [visit 30 ''Yes'']" "[visit 30 ''Yes'']"
        "projr (startup [visit 30 ''Yes''])" "[''Gender'', ''SMS_received'']"]
    by blast
qed

section \<open>The colours of the outcome\<close>

text \<open>
  Claim C8. The claim asks that every chart whose colour encodes the outcome maps
  did-not-attend to \<^verbatim>\<open>#FF9500\<close> and attended to \<^verbatim>\<open>#007AFF\<close>, the charts keyed by the 0/1
  flag included. The five such callbacks are evaluated here on a table of one missed and
  one attended appointment. The main histogram, the pie and the box plot, whose colour
  column is the label \<^verbatim>\<open>No-show\<close>, draw "Yes" and "No" in the two colours. The gender and
  SMS bar charts pass the same two colours with the keys 1 and 0, but their colour column
  \<^verbatim>\<open>No-show_flag\<close> is an integer column: the bars are coloured along the continuous scale
  and the mapping decides the colour of neither value.
\<close>

theorem flag_keyed_bars_continuous:
  "map (\<lambda>cb. map_sum id
                (\<lambda>fig. (color_arg fig, color_is_continuous fig,
                         discrete_color fig (StrKey ''Yes''), discrete_color fig (StrKey ''No'')))
                (cb (load [visit 30 ''Yes'', visit 40 ''No'']) ''Age''))
       [update_main_graph, update_target_graph, update_waiting_by_day]
     = [Inr (Some ''No-show'', False, Some ''#FF9500'', Some ''#007AFF''),
        Inr (Some ''No-show'', False, Some ''#FF9500'', Some ''#007AFF''),
        Inr (Some ''No-show'', False, Some ''#FF9500'', Some ''#007AFF'')] \<and>
   map (\<lambda>cb. map_sum id
                (\<lambda>fig. (color_arg fig, color_discrete_map fig, color_is_continuous fig,
                         discrete_color fig (IntKey 1), discrete_color fig (IntKey 0)))
                (cb (load [visit 30 ''Yes'', visit 40 ''No'']) ''Age''))
       [update_gender_graph, update_sms_graph]
     = [Inr (Some ''No-show_flag'', [(IntKey 1, ''#FF9500''), (IntKey 0, ''#007AFF'')], True,
             None, None),
        Inr (Some ''No-show_flag'', [(IntKey 1, ''#FF9500''), (IntKey 0, ''#007AFF'')], True,
             None, None)]"
  by (simp add: update_main_graph_def update_target_graph_def update_waiting_by_day_def
      update_gender_graph_def update_sms_graph_def px_histogram_def px_pie_def px_box_def
      px_bar_def has_columns_def is_numeric_def discrete_color_def NO_SHOW_COLOR_def
      SHOW_COLOR_def update_layout_def update_xaxes_def update_yaxes_def Let_def)

end
